theory Spec2Isabelle
  imports Complex_Main "HOL-Library.Word"
begin

unbundle bit_operations_syntax

section \<open>Overview\<close>

text \<open>
  A model of \<^verbatim>\<open>server.js\<close>, the signed registration ledger: the three \<^verbatim>\<open>POST\<close> routes
  \<^verbatim>\<open>/ebk/birth\<close>, \<^verbatim>\<open>/ebk/transfer\<close> and \<^verbatim>\<open>/ebk/verify\<close> with the helpers they call. A route is
  a function from the request body, the store behind the connection pool and what the
  environment decides during the request (clock readings, storage failures) to the
  response and the store afterwards. A request is handled on its own: the statements of
  two requests are not interleaved. The tables are those of \<^verbatim>\<open>initSchema\<close>, and each SQL
  statement of the source is a function on them.
\<close>

section \<open>JavaScript values\<close>

text \<open>
  The request handlers of \<^verbatim>\<open>server.js\<close> work on the parsed JSON body with JavaScript's
  dynamic coercions (\<^verbatim>\<open>||\<close>, \<^verbatim>\<open>Number\<close>, \<^verbatim>\<open>String\<close>, \<^verbatim>\<open>Array.prototype.join\<close>, template
  literals). A number is a finite value or one of the three special values; finite
  values are kept exact (every IEEE double is a rational), and \<^verbatim>\<open>-0\<close> is identified with
  \<^verbatim>\<open>0\<close>. The value \<^verbatim>\<open>undefined\<close> is what reading an absent property yields.
\<close>

datatype jsnum = NaN | PosInf | NegInf | Fin rat

datatype jsval =
    JUndef
  | JNull
  | JBool bool
  | JNum jsnum
  | JStr string
  | JArr "jsval list"
  | JObj "(string \<times> jsval) list"

text \<open>
  What the program takes from its environment: the digest of the \<^verbatim>\<open>crypto\<close> library, the
  secret read from the process environment (\<^verbatim>\<open>API_SECRET\<close>), and the conversions whose
  code is not part of the repository: the text of a finite number that is not an integer
  of magnitude up to \<^verbatim>\<open>2^53\<close>, \<^verbatim>\<open>Number\<close> applied to a string, the driver's serialisation of
  an array or object parameter, and the server's reading of a \<^verbatim>\<open>BIGINT\<close> from a text. The
  general theorems below hold for every such environment.
\<close>

record runtime =
  md5_hex :: "string \<Rightarrow> string"
  API_SECRET :: string
  fin_to_string :: "rat \<Rightarrow> string"
  string_to_number :: "string \<Rightarrow> jsnum"
  prepare_object :: "jsval \<Rightarrow> string"
  bigint_of_text :: "string \<Rightarrow> int option"

text \<open>\<^verbatim>\<open>const md5 = (s) => crypto.createHash("md5").update(s).digest("hex")\<close>\<close>

definition md5 :: "runtime \<Rightarrow> string \<Rightarrow> string" where
  "md5 R s = md5_hex R s"

text \<open>Truthiness, as \<^verbatim>\<open>||\<close>, \<^verbatim>\<open>&&\<close> and \<^verbatim>\<open>!\<close> read a value.\<close>

fun truthy :: "jsval \<Rightarrow> bool" where
  "truthy JUndef = False"
| "truthy JNull = False"
| "truthy (JBool b) = b"
| "truthy (JNum NaN) = False"
| "truthy (JNum (Fin q)) = (q \<noteq> 0)"
| "truthy (JNum n) = True"
| "truthy (JStr s) = (s \<noteq> [])"
| "truthy (JArr xs) = True"
| "truthy (JObj kvs) = True"

text \<open>\<^verbatim>\<open>a || b\<close>\<close>

definition js_or :: "jsval \<Rightarrow> jsval \<Rightarrow> jsval" where
  "js_or a b = (if truthy a then a else b)"

text \<open>
  Number to string. The three special values are spelled out by the language, and an
  integer of magnitude up to \<^verbatim>\<open>2^53\<close> is written with its decimal digits; the text of
  any other finite number is the runtime's.
\<close>

definition digit_char :: "int \<Rightarrow> char" where
  "digit_char n = ''0123456789'' ! nat n"

function dec_digits :: "int \<Rightarrow> string" where
  "dec_digits n = (if n < 10 then [digit_char n] else dec_digits (n div 10) @ [digit_char (n mod 10)])"
  by pat_completeness auto
termination
  by (relation "measure nat") auto

definition show_int :: "int \<Rightarrow> string" where
  "show_int n = (if n < 0 then CHR ''-'' # dec_digits (- n) else dec_digits n)"

definition safe_integer :: "rat \<Rightarrow> bool" where
  "safe_integer q = (of_int \<lfloor>q\<rfloor> = q \<and> \<bar>q\<bar> \<le> 2 ^ 53)"

fun num_to_string :: "runtime \<Rightarrow> jsnum \<Rightarrow> string" where
  "num_to_string R NaN = ''NaN''"
| "num_to_string R PosInf = ''Infinity''"
| "num_to_string R NegInf = ''-Infinity''"
| "num_to_string R (Fin q) = (if safe_integer q then show_int \<lfloor>q\<rfloor> else fin_to_string R q)"

text \<open>\<^verbatim>\<open>xs.join(sep)\<close> on strings already rendered.\<close>

fun join_strings :: "string \<Rightarrow> string list \<Rightarrow> string" where
  "join_strings sep [] = []"
| "join_strings sep [x] = x"
| "join_strings sep (x # y # ys) = x @ sep @ join_strings sep (y # ys)"

text \<open>
  \<^verbatim>\<open>String(v)\<close>, also what a template literal and \<^verbatim>\<open>toString\<close> produce. An array renders
  its elements joined by a comma, \<^verbatim>\<open>undefined\<close> and \<^verbatim>\<open>null\<close> elements as the empty string.
\<close>

fun to_string :: "runtime \<Rightarrow> jsval \<Rightarrow> string" where
  "to_string R JUndef = ''undefined''"
| "to_string R JNull = ''null''"
| "to_string R (JBool b) = (if b then ''true'' else ''false'')"
| "to_string R (JNum n) = num_to_string R n"
| "to_string R (JStr s) = s"
| "to_string R (JArr xs) =
     join_strings '',''
       (map (\<lambda>x. if x = JUndef \<or> x = JNull then [] else to_string R x) xs)"
| "to_string R (JObj kvs) = ''[object Object]''"

text \<open>One element of \<^verbatim>\<open>Array.prototype.join\<close>.\<close>

definition join_elem :: "runtime \<Rightarrow> jsval \<Rightarrow> string" where
  "join_elem R x = (if x = JUndef \<or> x = JNull then [] else to_string R x)"

text \<open>\<^verbatim>\<open>[v1, ..., vn].join(sep)\<close>\<close>

definition array_join :: "runtime \<Rightarrow> string \<Rightarrow> jsval list \<Rightarrow> string" where
  "array_join R sep xs = join_strings sep (map (join_elem R) xs)"

text \<open>\<^verbatim>\<open>Number(v)\<close>: arrays and objects go through their string form.\<close>

fun to_number :: "runtime \<Rightarrow> jsval \<Rightarrow> jsnum" where
  "to_number R JUndef = NaN"
| "to_number R JNull = Fin 0"
| "to_number R (JBool b) = Fin (if b then 1 else 0)"
| "to_number R (JNum n) = n"
| "to_number R (JStr s) = string_to_number R s"
| "to_number R (JArr xs) = string_to_number R (to_string R (JArr xs))"
| "to_number R (JObj kvs) = string_to_number R (to_string R (JObj kvs))"

text \<open>Subtraction, absolute value and \<^verbatim>\<open><=\<close> on numbers.\<close>

fun num_sub :: "jsnum \<Rightarrow> jsnum \<Rightarrow> jsnum" where
  "num_sub (Fin a) (Fin b) = Fin (a - b)"
| "num_sub NaN y = NaN"
| "num_sub x NaN = NaN"
| "num_sub PosInf PosInf = NaN"
| "num_sub NegInf NegInf = NaN"
| "num_sub PosInf y = PosInf"
| "num_sub NegInf y = NegInf"
| "num_sub (Fin a) PosInf = NegInf"
| "num_sub (Fin a) NegInf = PosInf"

fun num_abs :: "jsnum \<Rightarrow> jsnum" where
  "num_abs (Fin a) = Fin \<bar>a\<bar>"
| "num_abs NaN = NaN"
| "num_abs PosInf = PosInf"
| "num_abs NegInf = PosInf"

fun num_le :: "jsnum \<Rightarrow> jsnum \<Rightarrow> bool" where
  "num_le (Fin a) (Fin b) = (a \<le> b)"
| "num_le NaN y = False"
| "num_le x NaN = False"
| "num_le NegInf y = True"
| "num_le x PosInf = True"
| "num_le PosInf y = False"
| "num_le x NegInf = False"

section \<open>Freshness and signature\<close>

text \<open>
  \<^verbatim>\<open>const now = () => Math.floor(Date.now() / 1000)\<close> reads the clock: its value is an
  integer the environment supplies at each call.

  \<^verbatim>\<open>function enforceFresh(ts) { return Math.abs(now() - ts) <= 300; }\<close>

  The arithmetic is that of exact numbers; the rounding of a double subtraction is not
  modelled.
\<close>

definition enforceFresh :: "int \<Rightarrow> jsnum \<Rightarrow> bool" where
  "enforceFresh now ts = num_le (num_abs (num_sub (Fin (of_int now)) ts)) (Fin 300)"

text \<open>
  \<^verbatim>\<open>function verifySig(ts, core, sig) {
    const expect = md5(`${ts}|${core}|${API_SECRET}`);
    return expect === sig; }\<close>
\<close>

definition verifySig :: "runtime \<Rightarrow> jsnum \<Rightarrow> string \<Rightarrow> string \<Rightarrow> bool" where
  "verifySig R ts core sig =
     (let expect = md5 R (num_to_string R ts @ ''|'' @ core @ ''|'' @ API_SECRET R)
      in expect = sig)"

section \<open>The request body\<close>

text \<open>
  \<^verbatim>\<open>const b = req.body || {}\<close>: the parsed JSON object of the request, as the list of its
  properties, each name once; a request without a body is the empty object. Reading a
  property that the object lacks yields \<^verbatim>\<open>undefined\<close>.

  The values are plain data. Two kinds of request lie outside this model: a body that
  is a JSON array instead of an object, and a value that is an object with a member
  named \<^verbatim>\<open>toString\<close> or \<^verbatim>\<open>valueOf\<close> of its own, on which \<^verbatim>\<open>String\<close>, \<^verbatim>\<open>Number\<close> and \<^verbatim>\<open>join\<close>
  raise a \<^verbatim>\<open>TypeError\<close> instead of returning.
\<close>

type_synonym body = "(string \<times> jsval) list"

definition fld :: "body \<Rightarrow> string \<Rightarrow> jsval" where
  "fld b k = (case map_of b k of None \<Rightarrow> JUndef | Some v \<Rightarrow> v)"

section \<open>The store\<close>

text \<open>
  The three tables of \<^verbatim>\<open>initSchema\<close>, column by column. \<^verbatim>\<open>TEXT\<close>, \<^verbatim>\<open>INT\<close> and \<^verbatim>\<open>BIGINT\<close>
  columns are nullable (\<open>None\<close> is SQL \<^verbatim>\<open>NULL\<close>); each \<^verbatim>\<open>id BIGSERIAL PRIMARY KEY\<close> draws its
  value from the table's sequence. Rows are kept in insertion order.
\<close>

record birth_row =
  births_id :: int
  kit_sid :: "string option"
  p1_sid :: "string option"
  p2_sid :: "string option"
  gen :: "int option"
  tier :: "int option"
  dna_hash :: "string option"
  cert_id :: "string option"
  cert_ts :: "int option"
  owner_uuid :: "string option"
  created_at :: "int option"

record transfer_row =
  transfers_id :: int
  sid :: "string option"
  from_owner :: "string option"
  to_owner :: "string option"
  transfers_ts :: "int option"

record audit_row =
  audit_id :: int
  event :: "string option"
  payload :: "jsval option"
  audit_ts :: "int option"

text \<open>
  The state behind \<^verbatim>\<open>pool\<close>: the tables, the next value of each sequence, and the number
  of statements the pool has been handed so far (every call of \<^verbatim>\<open>pool.query\<close> counts, also
  one that fails), which is how a handler's storage accesses are observed.
\<close>

record store =
  births :: "birth_row list"
  births_id_seq :: int
  transfers :: "transfer_row list"
  transfers_id_seq :: int
  audit :: "audit_row list"
  audit_id_seq :: int
  queries :: nat

text \<open>An awaited \<^verbatim>\<open>pool.query\<close> either resolves with its result or rejects (throws).\<close>

datatype 'a settled = Rejected | Resolved 'a

text \<open>
  How the driver hands a parameter to the server: \<^verbatim>\<open>null\<close> and \<^verbatim>\<open>undefined\<close> become
  \<^verbatim>\<open>NULL\<close>, arrays and objects are serialised by the driver, everything else is sent as
  its \<^verbatim>\<open>toString()\<close>.
\<close>

fun prepareValue :: "runtime \<Rightarrow> jsval \<Rightarrow> string option" where
  "prepareValue R JUndef = None"
| "prepareValue R JNull = None"
| "prepareValue R (JArr xs) = Some (prepare_object R (JArr xs))"
| "prepareValue R (JObj kvs) = Some (prepare_object R (JObj kvs))"
| "prepareValue R v = Some (to_string R v)"

text \<open>
  A JavaScript number arriving at an \<^verbatim>\<open>INT\<close> or \<^verbatim>\<open>BIGINT\<close> column. The driver sends the
  number's text and the server reads an integer from it: it takes the decimal digits of
  an integer within the column's range and refuses anything else (\<^verbatim>\<open>NaN\<close>, an infinity,
  a fraction, a value out of range). An integer beyond \<^verbatim>\<open>2^53\<close> is out of range for \<^verbatim>\<open>INT\<close>;
  for \<^verbatim>\<open>BIGINT\<close> the server reads whatever text the runtime wrote for it.
\<close>

definition int4_in :: "jsnum \<Rightarrow> int option" where
  "int4_in n =
     (case n of
        Fin q \<Rightarrow>
          (if of_int \<lfloor>q\<rfloor> = q \<and> - (2 ^ 31) \<le> \<lfloor>q\<rfloor> \<and> \<lfloor>q\<rfloor> < 2 ^ 31
           then Some \<lfloor>q\<rfloor> else None)
      | _ \<Rightarrow> None)"

definition int8_in :: "runtime \<Rightarrow> jsnum \<Rightarrow> int option" where
  "int8_in R n =
     (case n of
        Fin q \<Rightarrow>
          (if safe_integer q then Some \<lfloor>q\<rfloor>
           else if of_int \<lfloor>q\<rfloor> = q then bigint_of_text R (fin_to_string R q)
           else None)
      | _ \<Rightarrow> None)"

text \<open>
  \<^verbatim>\<open>INSERT INTO births (kit_sid,p1_sid,p2_sid,gen,tier,dna_hash,cert_id,cert_ts,owner_uuid,created_at)
   VALUES ($1,...,$10) ON CONFLICT (cert_id) DO NOTHING\<close>

  \<open>fault\<close> says that the storage layer fails on this call for a reason of its own (the
  connection is lost, the server refuses the statement). Otherwise the numeric
  parameters are read; the next \<^verbatim>\<open>id\<close> is drawn from the sequence; and the row is appended
  unless \<^verbatim>\<open>cert_id UNIQUE\<close> finds a row with the same non-\<^verbatim>\<open>NULL\<close> \<^verbatim>\<open>cert_id\<close>, in which case
  nothing is inserted and nothing is raised. \<^verbatim>\<open>NULL\<close> never conflicts with \<^verbatim>\<open>NULL\<close>.
\<close>

definition insert_births ::
  "runtime \<Rightarrow> bool \<Rightarrow> string option \<Rightarrow> string option \<Rightarrow> string option \<Rightarrow> jsnum \<Rightarrow> jsnum \<Rightarrow>
   string option \<Rightarrow> string option \<Rightarrow> jsnum \<Rightarrow> string option \<Rightarrow> int \<Rightarrow> store \<Rightarrow>
   unit settled \<times> store" where
  "insert_births R fault kit p1 p2 g t dna cert cts own created d =
     (let d1 = d\<lparr>queries := Suc (queries d)\<rparr> in
      if fault then (Rejected, d1)
      else
        (case (int4_in g, int4_in t, int8_in R cts) of
           (Some g', Some t', Some cts') \<Rightarrow>
             (let row = \<lparr>births_id = births_id_seq d, kit_sid = kit, p1_sid = p1, p2_sid = p2,
                         gen = Some g', tier = Some t', dna_hash = dna, cert_id = cert,
                         cert_ts = Some cts', owner_uuid = own, created_at = Some created\<rparr>;
                  d2 = d1\<lparr>births_id_seq := births_id_seq d + 1\<rparr>
              in if cert \<noteq> None \<and> cert \<in> set (map cert_id (births d))
                 then (Resolved (), d2)
                 else (Resolved (), d2\<lparr>births := births d @ [row]\<rparr>))
         | _ \<Rightarrow> (Rejected, d1)))"

text \<open>\<^verbatim>\<open>INSERT INTO transfers(sid,from_owner,to_owner,ts) VALUES ($1,$2,$3,$4)\<close>\<close>

definition insert_transfers ::
  "runtime \<Rightarrow> bool \<Rightarrow> string option \<Rightarrow> string option \<Rightarrow> string option \<Rightarrow> jsnum \<Rightarrow> store \<Rightarrow>
   unit settled \<times> store" where
  "insert_transfers R fault s fo to' ts d =
     (let d1 = d\<lparr>queries := Suc (queries d)\<rparr> in
      if fault then (Rejected, d1)
      else
        (case int8_in R ts of
           Some ts' \<Rightarrow>
             (let row = \<lparr>transfers_id = transfers_id_seq d, sid = s, from_owner = fo,
                         to_owner = to', transfers_ts = Some ts'\<rparr>
              in (Resolved (),
                  d1\<lparr>transfers_id_seq := transfers_id_seq d + 1,
                     transfers := transfers d @ [row]\<rparr>))
         | None \<Rightarrow> (Rejected, d1)))"

text \<open>\<^verbatim>\<open>INSERT INTO audit(event,payload,ts) VALUES ($1,$2,$3)\<close>\<close>

definition insert_audit :: "bool \<Rightarrow> string \<Rightarrow> body \<Rightarrow> int \<Rightarrow> store \<Rightarrow> unit settled \<times> store" where
  "insert_audit fault ev b ts d =
     (let d1 = d\<lparr>queries := Suc (queries d)\<rparr> in
      if fault then (Rejected, d1)
      else
        (let row = \<lparr>audit_id = audit_id_seq d, event = Some ev, payload = Some (JObj b),
                    audit_ts = Some ts\<rparr>
         in (Resolved (),
             d1\<lparr>audit_id_seq := audit_id_seq d + 1, audit := audit d @ [row]\<rparr>)))"

text \<open>
  \<^verbatim>\<open>SELECT * FROM births WHERE cert_id=$1 LIMIT 1\<close>: a \<^verbatim>\<open>NULL\<close> parameter matches no row,
  since \<^verbatim>\<open>cert_id = NULL\<close> is never true.
\<close>

definition select_births :: "bool \<Rightarrow> string option \<Rightarrow> store \<Rightarrow> birth_row list settled \<times> store" where
  "select_births fault cert d =
     (let d1 = d\<lparr>queries := Suc (queries d)\<rparr> in
      if fault then (Rejected, d1)
      else
        (case cert of
           None \<Rightarrow> (Resolved [], d1)
         | Some c \<Rightarrow> (Resolved (take 1 (filter (\<lambda>r. cert_id r = Some c) (births d))), d1)))"

section \<open>Responses\<close>

text \<open>
  The JSON bodies the handlers send: \<^verbatim>\<open>{ok: true}\<close>, \<^verbatim>\<open>{ok: false, reason}\<close> and
  \<^verbatim>\<open>{ok: true, record: row}\<close>; a response is the HTTP status with the body.
\<close>

datatype json_body = Ok_true | Ok_false string | Ok_record birth_row

type_synonym response = "nat \<times> json_body"

text \<open>\<^verbatim>\<open>function bad(res, reason) { return res.status(400).json({ ok: false, reason }); }\<close>\<close>

definition bad :: "string \<Rightarrow> response" where
  "bad reason = (400, Ok_false reason)"

text \<open>\<^verbatim>\<open>res.json(j)\<close> answers with status 200.\<close>

definition res_json :: "json_body \<Rightarrow> response" where
  "res_json j = (200, j)"

section \<open>The routes\<close>

text \<open>
  What the environment decides while one request is handled: the clock at the first
  and at the second call of \<^verbatim>\<open>now()\<close>, and whether the storage layer fails at the first
  and at the second call of \<^verbatim>\<open>pool.query\<close>.
\<close>

record conditions =
  now_1st :: int
  now_2nd :: int
  fault_1st :: bool
  fault_2nd :: bool

text \<open>The signed core of each operation, \<^verbatim>\<open>[...].join("|")\<close>.\<close>

definition birth_fields :: "body \<Rightarrow> jsval list" where
  "birth_fields b =
     [fld b ''cert_id'', fld b ''cert_ts'', fld b ''p1'', fld b ''p2'', fld b ''gen'',
      fld b ''tier'', fld b ''dna_hash'', fld b ''owner'']"

definition birth_core :: "runtime \<Rightarrow> body \<Rightarrow> string" where
  "birth_core R b = array_join R ''|'' (birth_fields b)"

definition transfer_fields :: "body \<Rightarrow> jsval list" where
  "transfer_fields b = [fld b ''sid'', fld b ''from_owner'', fld b ''to_owner'']"

definition transfer_core :: "runtime \<Rightarrow> body \<Rightarrow> string" where
  "transfer_core R b = array_join R ''|'' (transfer_fields b)"

definition verify_fields :: "body \<Rightarrow> jsval list" where
  "verify_fields b = [fld b ''cert_id'', fld b ''dna_hash'']"

definition verify_core :: "runtime \<Rightarrow> body \<Rightarrow> string" where
  "verify_core R b = array_join R ''|'' (verify_fields b)"

text \<open>\<^verbatim>\<open>const ts = Number(b.ts || 0); const sig = String(b.sig || "");\<close>\<close>

definition req_ts :: "runtime \<Rightarrow> body \<Rightarrow> jsnum" where
  "req_ts R b = to_number R (js_or (fld b ''ts'') (JNum (Fin 0)))"

definition req_sig :: "runtime \<Rightarrow> body \<Rightarrow> string" where
  "req_sig R b = to_string R (js_or (fld b ''sig'') (JStr []))"

text \<open>\<^verbatim>\<open>app.post("/ebk/birth", ...)\<close>\<close>

definition birth :: "runtime \<Rightarrow> conditions \<Rightarrow> body \<Rightarrow> store \<Rightarrow> response \<times> store" where
  "birth R W b d =
     (let ts = req_ts R b; sig = req_sig R b; core = birth_core R b in
      if \<not> enforceFresh (now_1st W) ts then (bad ''stale ts'', d)
      else if \<not> verifySig R ts core sig then (bad ''bad sig'', d)
      else
        (let created = now_2nd W in
         case insert_births R (fault_1st W)
                (prepareValue R (js_or (fld b ''kit_sid'') JNull))
                (prepareValue R (js_or (fld b ''p1'') JNull))
                (prepareValue R (js_or (fld b ''p2'') JNull))
                (to_number R (js_or (fld b ''gen'') (JNum (Fin 0))))
                (to_number R (js_or (fld b ''tier'') (JNum (Fin 0))))
                (prepareValue R (js_or (fld b ''dna_hash'') JNull))
                (prepareValue R (js_or (fld b ''cert_id'') JNull))
                (to_number R (js_or (fld b ''cert_ts'') (JNum (Fin 0))))
                (prepareValue R (js_or (fld b ''owner'') JNull))
                created d of
           (Rejected, d1) \<Rightarrow> (bad ''db error'', d1)
         | (Resolved u, d1) \<Rightarrow>
             (case insert_audit (fault_2nd W) ''birth'' b created d1 of
                (Rejected, d2) \<Rightarrow> (bad ''db error'', d2)
              | (Resolved v, d2) \<Rightarrow> (res_json Ok_true, d2))))"

text \<open>\<^verbatim>\<open>app.post("/ebk/transfer", ...)\<close>\<close>

definition transfer :: "runtime \<Rightarrow> conditions \<Rightarrow> body \<Rightarrow> store \<Rightarrow> response \<times> store" where
  "transfer R W b d =
     (let ts = req_ts R b; sig = req_sig R b; core = transfer_core R b in
      if \<not> enforceFresh (now_1st W) ts then (bad ''stale ts'', d)
      else if \<not> verifySig R ts core sig then (bad ''bad sig'', d)
      else
        (case insert_transfers R (fault_1st W)
                (prepareValue R (js_or (fld b ''sid'') JNull))
                (prepareValue R (js_or (fld b ''from_owner'') JNull))
                (prepareValue R (js_or (fld b ''to_owner'') JNull))
                ts d of
           (Rejected, d1) \<Rightarrow> (bad ''db error'', d1)
         | (Resolved u, d1) \<Rightarrow>
             (case insert_audit (fault_2nd W) ''transfer'' b (now_2nd W) d1 of
                (Rejected, d2) \<Rightarrow> (bad ''db error'', d2)
              | (Resolved v, d2) \<Rightarrow> (res_json Ok_true, d2))))"

text \<open>
  A \<^verbatim>\<open>TEXT\<close> column as the driver returns it to JavaScript, and \<^verbatim>\<open>a !== b\<close> where \<open>b\<close> is
  such a value (a string or \<^verbatim>\<open>null\<close>): an array or an object is never identical to it,
  nor is \<^verbatim>\<open>NaN\<close> to anything.
\<close>

definition text_value :: "string option \<Rightarrow> jsval" where
  "text_value c = (case c of None \<Rightarrow> JNull | Some s \<Rightarrow> JStr s)"

fun strict_neq :: "jsval \<Rightarrow> jsval \<Rightarrow> bool" where
  "strict_neq (JArr xs) y = True"
| "strict_neq (JObj kvs) y = True"
| "strict_neq (JNum NaN) y = True"
| "strict_neq x y = (x \<noteq> y)"

text \<open>\<^verbatim>\<open>app.post("/ebk/verify", ...)\<close>\<close>

definition verify :: "runtime \<Rightarrow> conditions \<Rightarrow> body \<Rightarrow> store \<Rightarrow> response \<times> store" where
  "verify R W b d =
     (let ts = req_ts R b; sig = req_sig R b; core = verify_core R b in
      if \<not> enforceFresh (now_1st W) ts then (bad ''stale ts'', d)
      else if \<not> verifySig R ts core sig then (bad ''bad sig'', d)
      else
        (case select_births (fault_1st W) (prepareValue R (fld b ''cert_id'')) d of
           (Rejected, d1) \<Rightarrow> (bad ''db error'', d1)
         | (Resolved rows, d1) \<Rightarrow>
             (case rows of
                [] \<Rightarrow> (res_json (Ok_false ''not found''), d1)
              | row # rest \<Rightarrow>
                  if truthy (fld b ''dna_hash'') \<and> truthy (text_value (dna_hash row))
                     \<and> strict_neq (fld b ''dna_hash'') (text_value (dna_hash row))
                  then (res_json (Ok_false ''dna mismatch''), d1)
                  else (res_json (Ok_record row), d1))))"

section \<open>Notions used to state the properties\<close>

text \<open>
  A request is admitted when it passes both checks of its route: its timestamp is fresh
  at the first clock reading and its signature verifies against the operation's core.
\<close>

definition admitted :: "runtime \<Rightarrow> conditions \<Rightarrow> string \<Rightarrow> body \<Rightarrow> bool" where
  "admitted R W core b =
     (enforceFresh (now_1st W) (req_ts R b) \<and> verifySig R (req_ts R b) core (req_sig R b))"

text \<open>
  The storage layer carries out both statements of a birth request: it does not fail on
  either call, and the three numeric parameters are integers their columns take.
\<close>

definition birth_storable :: "runtime \<Rightarrow> conditions \<Rightarrow> body \<Rightarrow> bool" where
  "birth_storable R W b =
     (\<not> fault_1st W \<and> \<not> fault_2nd W
      \<and> int4_in (to_number R (js_or (fld b ''gen'') (JNum (Fin 0)))) \<noteq> None
      \<and> int4_in (to_number R (js_or (fld b ''tier'') (JNum (Fin 0)))) \<noteq> None
      \<and> int8_in R (to_number R (js_or (fld b ''cert_ts'') (JNum (Fin 0)))) \<noteq> None)"

text \<open>The certificate identifier a birth request stores: \<^verbatim>\<open>b.cert_id || null\<close> as the driver sends it.\<close>

definition stored_cert :: "runtime \<Rightarrow> body \<Rightarrow> string option" where
  "stored_cert R b = prepareValue R (js_or (fld b ''cert_id'') JNull)"

text \<open>The rows of \<^verbatim>\<open>births\<close> that carry the certificate identifier \<open>c\<close>.\<close>

definition rows_of_cert :: "string \<Rightarrow> store \<Rightarrow> birth_row list" where
  "rows_of_cert c d = filter (\<lambda>r. cert_id r = Some c) (births d)"

text \<open>
  The constraint \<^verbatim>\<open>cert_id TEXT UNIQUE\<close> as a property of a table: no two rows share a
  non-\<^verbatim>\<open>NULL\<close> certificate identifier.
\<close>

definition cert_unique :: "store \<Rightarrow> bool" where
  "cert_unique d = distinct (filter (\<lambda>c. c \<noteq> None) (map cert_id (births d)))"

text \<open>The three signed operations, with their field tuples and cores.\<close>

datatype operation = Birth | Transfer | Verify

fun op_fields :: "operation \<Rightarrow> body \<Rightarrow> jsval list" where
  "op_fields Birth b = birth_fields b"
| "op_fields Transfer b = transfer_fields b"
| "op_fields Verify b = verify_fields b"

fun op_core :: "runtime \<Rightarrow> operation \<Rightarrow> body \<Rightarrow> string" where
  "op_core R Birth b = birth_core R b"
| "op_core R Transfer b = transfer_core R b"
| "op_core R Verify b = verify_core R b"

text \<open>
  The string \<^verbatim>\<open>verifySig\<close> hashes for a timestamp and a core, and the condition that the
  digest tells two such strings apart.
\<close>

definition signed_string :: "runtime \<Rightarrow> jsnum \<Rightarrow> string \<Rightarrow> string" where
  "signed_string R ts core = num_to_string R ts @ ''|'' @ core @ ''|'' @ API_SECRET R"

definition no_collision :: "runtime \<Rightarrow> string \<Rightarrow> string \<Rightarrow> bool" where
  "no_collision R m1 m2 = (md5 R m1 = md5 R m2 \<longrightarrow> m1 = m2)"

text \<open>
  The rows an accepted request writes: the Certificate Record of a birth request, the
  Transfer Record of a transfer request with the \<^verbatim>\<open>id\<close> it draws, and the Audit Entry of
  either.
\<close>

definition new_birth_row :: "runtime \<Rightarrow> conditions \<Rightarrow> body \<Rightarrow> store \<Rightarrow> birth_row" where
  "new_birth_row R W b d =
     \<lparr>births_id = births_id_seq d,
      kit_sid = prepareValue R (js_or (fld b ''kit_sid'') JNull),
      p1_sid = prepareValue R (js_or (fld b ''p1'') JNull),
      p2_sid = prepareValue R (js_or (fld b ''p2'') JNull),
      gen = int4_in (to_number R (js_or (fld b ''gen'') (JNum (Fin 0)))),
      tier = int4_in (to_number R (js_or (fld b ''tier'') (JNum (Fin 0)))),
      dna_hash = prepareValue R (js_or (fld b ''dna_hash'') JNull),
      cert_id = prepareValue R (js_or (fld b ''cert_id'') JNull),
      cert_ts = int8_in R (to_number R (js_or (fld b ''cert_ts'') (JNum (Fin 0)))),
      owner_uuid = prepareValue R (js_or (fld b ''owner'') JNull),
      created_at = Some (now_2nd W)\<rparr>"

definition new_transfer_row :: "runtime \<Rightarrow> body \<Rightarrow> int \<Rightarrow> transfer_row" where
  "new_transfer_row R b i =
     \<lparr>transfers_id = i,
      sid = prepareValue R (js_or (fld b ''sid'') JNull),
      from_owner = prepareValue R (js_or (fld b ''from_owner'') JNull),
      to_owner = prepareValue R (js_or (fld b ''to_owner'') JNull),
      transfers_ts = int8_in R (req_ts R b)\<rparr>"

definition audit_entry :: "string \<Rightarrow> conditions \<Rightarrow> body \<Rightarrow> store \<Rightarrow> audit_row" where
  "audit_entry kind W b d =
     \<lparr>audit_id = audit_id_seq d, event = Some kind, payload = Some (JObj b),
      audit_ts = Some (now_2nd W)\<rparr>"

text \<open>A request is accepted when the handler answers \<^verbatim>\<open>{ok: true}\<close> with status 200.\<close>

definition accepted :: "response \<times> store \<Rightarrow> bool" where
  "accepted out = (fst out = res_json Ok_true)"


text \<open>Two tuples of the same length that differ in exactly one position.\<close>

fun differ_in_one :: "'a list \<Rightarrow> 'a list \<Rightarrow> bool" where
  "differ_in_one [] ys = False"
| "differ_in_one (x # xs) [] = False"
| "differ_in_one (x # xs) (y # ys) = (if x = y then differ_in_one xs ys else xs = ys)"

text \<open>
  The verification outcome as the specification words it, on the asserted content hash
  and the record found for the identifier, if any: \<^verbatim>\<open>not found\<close> without a record,
  \<^verbatim>\<open>dna mismatch\<close> when asserted and stored hash are both non-empty and differ, and
  otherwise the stored record. A stored hash is non-empty when it is neither \<^verbatim>\<open>NULL\<close> nor
  the empty text; an asserted value is non-empty when JavaScript reads it as true, which
  for a text means that it is not the empty text.
\<close>

definition non_empty :: "jsval \<Rightarrow> bool" where
  "non_empty v = truthy v"

definition verification_result :: "jsval \<Rightarrow> birth_row option \<Rightarrow> json_body" where
  "verification_result asserted found =
     (case found of
        None \<Rightarrow> Ok_false ''not found''
      | Some row \<Rightarrow>
          (case dna_hash row of
             None \<Rightarrow> Ok_record row
           | Some h \<Rightarrow>
               if non_empty asserted \<and> h \<noteq> [] \<and> asserted \<noteq> JStr h
               then Ok_false ''dna mismatch'' else Ok_record row))"

section \<open>The digest of the examples\<close>

text \<open>
  The examples below run the handlers with the MD5 function of RFC 1321 in the place
  of \<^verbatim>\<open>crypto.createHash("md5")\<close>, on the bytes of the string, with the digest in
  lower-case hexadecimal.
\<close>

definition md5_K :: "32 word list" where
  "md5_K = [
      0xd76aa478, 0xe8c7b756, 0x242070db, 0xc1bdceee,
      0xf57c0faf, 0x4787c62a, 0xa8304613, 0xfd469501,
      0x698098d8, 0x8b44f7af, 0xffff5bb1, 0x895cd7be,
      0x6b901122, 0xfd987193, 0xa679438e, 0x49b40821,
      0xf61e2562, 0xc040b340, 0x265e5a51, 0xe9b6c7aa,
      0xd62f105d, 0x02441453, 0xd8a1e681, 0xe7d3fbc8,
      0x21e1cde6, 0xc33707d6, 0xf4d50d87, 0x455a14ed,
      0xa9e3e905, 0xfcefa3f8, 0x676f02d9, 0x8d2a4c8a,
      0xfffa3942, 0x8771f681, 0x6d9d6122, 0xfde5380c,
      0xa4beea44, 0x4bdecfa9, 0xf6bb4b60, 0xbebfbc70,
      0x289b7ec6, 0xeaa127fa, 0xd4ef3085, 0x04881d05,
      0xd9d4d039, 0xe6db99e5, 0x1fa27cf8, 0xc4ac5665,
      0xf4292244, 0x432aff97, 0xab9423a7, 0xfc93a039,
      0x655b59c3, 0x8f0ccc92, 0xffeff47d, 0x85845dd1,
      0x6fa87e4f, 0xfe2ce6e0, 0xa3014314, 0x4e0811a1,
      0xf7537e82, 0xbd3af235, 0x2ad7d2bb, 0xeb86d391]"

definition md5_S :: "nat list" where
  "md5_S = [7, 12, 17, 22, 7, 12, 17, 22, 7, 12, 17, 22, 7, 12, 17, 22,
            5, 9, 14, 20, 5, 9, 14, 20, 5, 9, 14, 20, 5, 9, 14, 20,
            4, 11, 16, 23, 4, 11, 16, 23, 4, 11, 16, 23, 4, 11, 16, 23,
            6, 10, 15, 21, 6, 10, 15, 21, 6, 10, 15, 21, 6, 10, 15, 21]"

definition rotl :: "32 word \<Rightarrow> nat \<Rightarrow> 32 word" where
  "rotl x c = (push_bit c x) OR (drop_bit (32 - c) x)"

definition md5_F :: "nat \<Rightarrow> 32 word \<Rightarrow> 32 word \<Rightarrow> 32 word \<Rightarrow> 32 word" where
  "md5_F i b c d =
     (if i < 16 then (b AND c) OR ((NOT b) AND d)
      else if i < 32 then (d AND b) OR ((NOT d) AND c)
      else if i < 48 then b XOR c XOR d
      else c XOR (b OR (NOT d)))"

definition md5_g :: "nat \<Rightarrow> nat" where
  "md5_g i =
     (if i < 16 then i
      else if i < 32 then (5 * i + 1) mod 16
      else if i < 48 then (3 * i + 5) mod 16
      else (7 * i) mod 16)"

type_synonym md5_state = "32 word \<times> 32 word \<times> 32 word \<times> 32 word"

fun md5_round :: "32 word list \<Rightarrow> md5_state \<Rightarrow> nat \<Rightarrow> md5_state" where
  "md5_round m (a, b, c, d) i =
     (let f = md5_F i b c d + a + md5_K ! i + m ! md5_g i
      in (d, b + rotl f (md5_S ! i), b, c))"

fun md5_add :: "md5_state \<Rightarrow> md5_state \<Rightarrow> md5_state" where
  "md5_add (a0, b0, c0, d0) (a, b, c, d) = (a0 + a, b0 + b, c0 + c, d0 + d)"

definition md5_block :: "md5_state \<Rightarrow> 32 word list \<Rightarrow> md5_state" where
  "md5_block st m = md5_add st (foldl (md5_round m) st [0..<64])"

definition md5_step :: "32 word list \<Rightarrow> md5_state \<Rightarrow> nat \<Rightarrow> md5_state" where
  "md5_step ws st k = md5_block st (take 16 (drop (16 * k) ws))"

fun le_word :: "int list \<Rightarrow> 32 word" where
  "le_word [b0, b1, b2, b3] = of_int (b0 + 256 * b1 + 65536 * b2 + 16777216 * b3)"
| "le_word bs = 0"

fun chunk_words :: "int list \<Rightarrow> 32 word list" where
  "chunk_words (b0 # b1 # b2 # b3 # bs) = le_word [b0, b1, b2, b3] # chunk_words bs"
| "chunk_words bs = []"

definition le_bytes :: "nat \<Rightarrow> int \<Rightarrow> int list" where
  "le_bytes k n = map (\<lambda>i. (n div 256 ^ i) mod 256) [0..<k]"

definition md5_pad :: "int list \<Rightarrow> int list" where
  "md5_pad bs =
     bs @ [128] @ replicate ((119 - length bs mod 64) mod 64) 0
        @ le_bytes 8 ((8 * int (length bs)) mod 2 ^ 64)"

definition hex_digit :: "int \<Rightarrow> char" where
  "hex_digit n = ''0123456789abcdef'' ! nat n"

definition hex_byte :: "int \<Rightarrow> string" where
  "hex_byte n = [hex_digit (n div 16), hex_digit (n mod 16)]"

fun state_hex :: "md5_state \<Rightarrow> string" where
  "state_hex (a, b, c, d) =
     concat (map hex_byte
       (le_bytes 4 (uint a) @ le_bytes 4 (uint b) @ le_bytes 4 (uint c) @ le_bytes 4 (uint d)))"

definition md5_digest :: "string \<Rightarrow> string" where
  "md5_digest s =
     (let ws = chunk_words (md5_pad (map of_char s))
      in state_hex (foldl (md5_step ws) (0x67452301, 0xefcdab89, 0x98badcfe, 0x10325476)
                      [0..<length ws div 16]))"

section \<open>The requests of the examples\<close>

text \<open>
  The runtime of the examples: the digest above and the secret of the specification's
  scenario. \<^verbatim>\<open>Number\<close> reads the empty string as \<^verbatim>\<open>0\<close> and a string of up to fifteen
  decimal digits as the number it spells, which is all the examples send; it does not
  read the other spellings JavaScript accepts. The examples involve neither fractions,
  nor integers beyond \<^verbatim>\<open>2^53\<close>, nor arrays or objects as parameters, so the three remaining
  conversions are never called and are filled with constants.
\<close>

definition digit_value :: "int \<Rightarrow> char \<Rightarrow> int" where
  "digit_value n c = 10 * n + (of_char c - 48)"

definition decimal_number :: "string \<Rightarrow> jsnum" where
  "decimal_number s =
     (if length s \<le> 15 \<and> list_all (\<lambda>c. c \<in> set ''0123456789'') s
      then Fin (of_int (foldl digit_value 0 s)) else NaN)"

definition example_runtime :: runtime where
  "example_runtime =
     \<lparr>md5_hex = md5_digest, API_SECRET = ''s3cret'',
      fin_to_string = (\<lambda>q. ''?''), string_to_number = decimal_number,
      prepare_object = (\<lambda>v. ''?''), bigint_of_text = (\<lambda>s. None)\<rparr>"

text \<open>
  The specification's scenario at \<^verbatim>\<open>T = 1700000000\<close>: a birth request whose signed fields
  join to \<^verbatim>\<open>C1|1000|P1|P2|3|2|H1|OwnerA\<close>, with the signature computed for it.
\<close>

definition scenario_birth :: body where
  "scenario_birth =
     [(''ts'', JNum (Fin 1700000000)),
      (''sig'', JStr ''ccd717fc92d5d3a9a614728a6bc3d4f2''),
      (''kit_sid'', JStr ''K1''),
      (''cert_id'', JStr ''C1''), (''cert_ts'', JNum (Fin 1000)),
      (''p1'', JStr ''P1''), (''p2'', JStr ''P2''),
      (''gen'', JNum (Fin 3)), (''tier'', JNum (Fin 2)),
      (''dna_hash'', JStr ''H1''), (''owner'', JStr ''OwnerA'')]"

text \<open>The object \<open>b\<close> without the property \<open>k\<close>, and with the property \<open>k\<close> set to \<open>v\<close>.\<close>

definition without_field :: "string \<Rightarrow> body \<Rightarrow> body" where
  "without_field k b = filter (\<lambda>p. fst p \<noteq> k) b"

definition with_field :: "string \<Rightarrow> jsval \<Rightarrow> body \<Rightarrow> body" where
  "with_field k v b = (k, v) # without_field k b"

text \<open>A transfer of the kit and a verification query, signed for the same \<open>T\<close>.\<close>

definition scenario_transfer :: body where
  "scenario_transfer =
     [(''ts'', JNum (Fin 1700000000)),
      (''sig'', JStr ''c3a796430dc2628420c57bb4da7ab5d7''),
      (''sid'', JStr ''K1''), (''from_owner'', JStr ''OwnerA''), (''to_owner'', JStr ''OwnerB'')]"

definition verify_request :: "string \<Rightarrow> string \<Rightarrow> string \<Rightarrow> body" where
  "verify_request c h s =
     [(''ts'', JNum (Fin 1700000000)), (''sig'', JStr s),
      (''cert_id'', JStr c), (''dna_hash'', JStr h)]"

text \<open>An empty store, and the clock ten seconds after \<open>T\<close> with a storage layer that works.\<close>

definition empty_store :: store where
  "empty_store =
     \<lparr>births = [], births_id_seq = 1, transfers = [], transfers_id_seq = 1,
      audit = [], audit_id_seq = 1, queries = 0\<rparr>"

definition at_time :: "int \<Rightarrow> conditions" where
  "at_time t = \<lparr>now_1st = t, now_2nd = t, fault_1st = False, fault_2nd = False\<rparr>"

text \<open>The same clock with a storage layer that fails on every call.\<close>

definition storage_down :: "int \<Rightarrow> conditions" where
  "storage_down t = \<lparr>now_1st = t, now_2nd = t, fault_1st = True, fault_2nd = True\<rparr>"

text \<open>
  Variants of the scenario's birth request: the same certificate submitted for another
  owner (signed for it), the request with \<^verbatim>\<open>gen\<close> sent as the text \<^verbatim>\<open>"3"\<close> and with another
  owner under the scenario's signature, and the request without a \<^verbatim>\<open>cert_id\<close> (signed
  for it).
\<close>

definition other_owner_birth :: body where
  "other_owner_birth =
     with_field ''owner'' (JStr ''OwnerB'')
       (with_field ''sig'' (JStr ''8653b015d17fbae04efaab608591baed'') scenario_birth)"

definition gen_as_text_birth :: body where
  "gen_as_text_birth = with_field ''gen'' (JStr ''3'') scenario_birth"

definition forged_owner_birth :: body where
  "forged_owner_birth = with_field ''owner'' (JStr ''OwnerB'') scenario_birth"

definition unnamed_birth :: body where
  "unnamed_birth =
     with_field ''sig'' (JStr ''41e1d9be691157e5b5527a54c8c84d8d'')
       (without_field ''cert_id'' scenario_birth)"

text \<open>The request whose \<^verbatim>\<open>cert_id\<close> is the empty text; it signs the same string.\<close>

definition empty_cert_birth :: body where
  "empty_cert_birth = with_field ''cert_id'' (JStr []) unnamed_birth"

text \<open>The store after the scenario's birth request, accepted ten seconds after \<open>T\<close>.\<close>

definition ledger :: store where
  "ledger = snd (birth example_runtime (at_time 1700000010) scenario_birth empty_store)"

section \<open>Freshness\<close>


section \<open>The handlers step by step\<close>






lemma bad_not_ok: "bad r \<noteq> res_json Ok_true"
  by (simp add: bad_def res_json_def)

text \<open>A fresh request with a wrong signature is turned away on every route, the store untouched.\<close>

lemma bad_sig_rejected:
  assumes "enforceFresh (now_1st W) (req_ts R b)"
  shows "\<not> verifySig R (req_ts R b) (birth_core R b) (req_sig R b) \<Longrightarrow>
           birth R W b d = (bad ''bad sig'', d)"
    and "\<not> verifySig R (req_ts R b) (transfer_core R b) (req_sig R b) \<Longrightarrow>
           transfer R W b d = (bad ''bad sig'', d)"
    and "\<not> verifySig R (req_ts R b) (verify_core R b) (req_sig R b) \<Longrightarrow>
           verify R W b d = (bad ''bad sig'', d)"
  using assms by (simp_all add: birth_def transfer_def verify_def Let_def)

text \<open>
  A birth request is accepted exactly when it is admitted and the storage layer carries
  out its two statements; a transfer request likewise.
\<close>

lemma birth_accepted_iff:
  "accepted (birth R W b d) = (admitted R W (birth_core R b) b \<and> birth_storable R W b)"
  by (auto simp: accepted_def birth_def Let_def admitted_def birth_storable_def insert_births_def
      insert_audit_def bad_not_ok split: option.splits)

lemma birth_accepted_births:
  assumes "accepted (birth R W b d)"
  shows "births (snd (birth R W b d)) =
           (if stored_cert R b \<noteq> None \<and> stored_cert R b \<in> set (map cert_id (births d))
            then births d else births d @ [new_birth_row R W b d])"
  using assms
  by (auto simp: accepted_def birth_def Let_def stored_cert_def new_birth_row_def insert_births_def
      insert_audit_def bad_not_ok split: option.splits if_splits)


lemma birth_accepted_seq:
  "accepted (birth R W b d) \<Longrightarrow>
   births_id_seq (snd (birth R W b d)) = births_id_seq d + 1
   \<and> audit_id_seq (snd (birth R W b d)) = audit_id_seq d + 1
   \<and> transfers (snd (birth R W b d)) = transfers d"
  by (auto simp: accepted_def birth_def Let_def insert_births_def insert_audit_def bad_not_ok
      split: option.splits if_splits)

lemma transfer_accepted_iff:
  "accepted (transfer R W b d) =
     (admitted R W (transfer_core R b) b \<and> \<not> fault_1st W \<and> \<not> fault_2nd W
      \<and> int8_in R (req_ts R b) \<noteq> None)"
  by (auto simp: accepted_def transfer_def Let_def admitted_def insert_transfers_def
      insert_audit_def bad_not_ok split: option.splits)

lemma transfer_accepted_store:
  assumes "accepted (transfer R W b d)"
  shows "transfers (snd (transfer R W b d)) =
           transfers d @ [new_transfer_row R b (transfers_id_seq d)]"
    and "transfers_id_seq (snd (transfer R W b d)) = transfers_id_seq d + 1"
    and "audit (snd (transfer R W b d)) = audit d @ [audit_entry ''transfer'' W b d]"
    and "births (snd (transfer R W b d)) = births d"
  using assms
  by (auto simp: accepted_def transfer_def Let_def new_transfer_row_def audit_entry_def
      insert_transfers_def insert_audit_def bad_not_ok split: option.splits if_splits)

subsection \<open>The uniqueness constraint\<close>

lemma cert_present_iff: "Some c \<in> set (map cert_id (births d)) = (rows_of_cert c d \<noteq> [])"
  by (force simp: rows_of_cert_def filter_empty_conv)

lemma distinct_filter_one:
  "distinct (filter P (map f xs)) \<Longrightarrow> P k \<Longrightarrow> length (filter (\<lambda>r. f r = k) xs) \<le> 1"
proof (induction xs)
  case Nil
  then show ?case by simp
next
  case (Cons x xs)
  show ?case
  proof (cases "f x = k")
    case True
    with Cons.prems have "k \<notin> set (filter P (map f xs))" by auto
    with Cons.prems have "\<forall>r \<in> set xs. f r \<noteq> k" by auto
    then have "filter (\<lambda>r. f r = k) xs = []" by (simp add: filter_empty_conv)
    with True show ?thesis by simp
  next
    case False
    with Cons show ?thesis by (auto split: if_splits)
  qed
qed

lemma cert_unique_rows: "cert_unique d \<Longrightarrow> length (rows_of_cert c d) \<le> 1"
  unfolding cert_unique_def rows_of_cert_def
  using distinct_filter_one [of "\<lambda>c. c \<noteq> None" cert_id "births d" "Some c"] by simp

text \<open>No request breaks the constraint: the conflict clause keeps it.\<close>

lemma birth_keeps_cert_unique:
  assumes "cert_unique d"
  shows "cert_unique (snd (birth R W b d))"
  using assms
  by (auto simp: cert_unique_def birth_def Let_def insert_births_def insert_audit_def
      split: option.splits if_splits)

subsection \<open>Joining\<close>

lemma join_strings_Cons:
  "xs \<noteq> [] \<Longrightarrow> join_strings sep (x # xs) = x @ sep @ join_strings sep xs"
  by (cases xs) simp_all




lemma differ_in_one_nonempty: "differ_in_one xs ys \<Longrightarrow> xs \<noteq> [] \<and> ys \<noteq> []"
  by (induction xs ys rule: differ_in_one.induct) auto

text \<open>Changing one element of a tuple changes the joined string, whatever the elements hold.\<close>

lemma differ_in_one_join:
  "differ_in_one xs ys \<Longrightarrow> join_strings sep xs \<noteq> join_strings sep ys"
proof (induction xs ys rule: differ_in_one.induct)
  case (1 ys)
  then show ?case by simp
next
  case (2 x xs)
  then show ?case by simp
next
  case (3 x xs y ys)
  show ?case
  proof (cases "x = y")
    case True
    with "3.prems" have d: "differ_in_one xs ys" by simp
    then have ne: "xs \<noteq> []" "ys \<noteq> []" using differ_in_one_nonempty by blast+
    from "3.IH" True d have "join_strings sep xs \<noteq> join_strings sep ys" by simp
    with True ne show ?thesis by (simp add: join_strings_Cons)
  next
    case False
    with "3.prems" have eq: "xs = ys" by simp
    show ?thesis
    proof (cases "ys = []")
      case True
      with eq False show ?thesis by simp
    next
      case nonempty: False
      with eq False show ?thesis by (simp add: join_strings_Cons)
    qed
  qed
qed

lemma op_core_join: "op_core R opn b = array_join R ''|'' (op_fields opn b)"
  by (cases opn) (simp_all add: birth_core_def transfer_core_def verify_core_def)

subsection \<open>The lookup\<close>

lemma take1_filter_find:
  "take (Suc 0) (filter P xs) = (case find P xs of None \<Rightarrow> [] | Some x \<Rightarrow> [x])"
  by (induction xs) simp_all

lemma strict_neq_text: "strict_neq v (JStr h) = (v \<noteq> JStr h)"
proof (cases v)
  case (JNum n)
  then show ?thesis by (cases n) simp_all
qed simp_all

section \<open>Evaluating the examples\<close>

text \<open>The digest on three messages of the test suite of RFC 1321, the last of two blocks.\<close>

lemma md5_digest_empty: "md5_digest [] = ''d41d8cd98f00b204e9800998ecf8427e''"
  by code_simp

lemma md5_digest_abc: "md5_digest ''abc'' = ''900150983cd24fb0d6963f7d28e17f72''"
  by code_simp

lemma md5_digest_digits:
  "md5_digest
     ''12345678901234567890123456789012345678901234567890123456789012345678901234567890''
   = ''57edf4a22be3c955ac49da2e2107b67a''"
  by code_simp

text \<open>The digests of the examples' signed strings.\<close>

lemma md5_birth_C1:
  "md5_digest ''1700000000|C1|1000|P1|P2|3|2|H1|OwnerA|s3cret''
   = ''ccd717fc92d5d3a9a614728a6bc3d4f2''"
  by code_simp

lemma md5_birth_OwnerB:
  "md5_digest ''1700000000|C1|1000|P1|P2|3|2|H1|OwnerB|s3cret''
   = ''8653b015d17fbae04efaab608591baed''"
  by code_simp

lemma md5_birth_unnamed:
  "md5_digest ''1700000000||1000|P1|P2|3|2|H1|OwnerA|s3cret''
   = ''41e1d9be691157e5b5527a54c8c84d8d''"
  by code_simp

lemma md5_transfer_K1:
  "md5_digest ''1700000000|K1|OwnerA|OwnerB|s3cret'' = ''c3a796430dc2628420c57bb4da7ab5d7''"
  by code_simp

lemma md5_verify_C1_H1:
  "md5_digest ''1700000000|C1|H1|s3cret'' = ''dc9053d404f723981ea657d22b736e8a''"
  by code_simp

lemma md5_verify_C1_xyz:
  "md5_digest ''1700000000|C1|xyz|s3cret'' = ''a6f8b9c88ae63deba45cc964ff63e45c''"
  by code_simp

lemma md5_verify_C9_H1:
  "md5_digest ''1700000000|C9|H1|s3cret'' = ''800302322ada27249c0a2b027eb57305''"
  by code_simp

lemmas js_eval =
  fld_def js_or_def join_elem_def array_join_def safe_integer_def show_int_def digit_char_def
  int4_in_def int8_in_def with_field_def without_field_def

lemmas request_eval =
  req_ts_def req_sig_def birth_core_def birth_fields_def transfer_core_def transfer_fields_def
  verify_core_def verify_fields_def stored_cert_def

lemmas example_requests =
  scenario_birth_def other_owner_birth_def gen_as_text_birth_def forged_owner_birth_def
  unnamed_birth_def empty_cert_birth_def scenario_transfer_def verify_request_def

lemma conditions_sel:
  "now_1st (at_time t) = t" "now_2nd (at_time t) = t"
  "fault_1st (at_time t) = False" "fault_2nd (at_time t) = False"
  "now_1st (storage_down t) = t" "fault_1st (storage_down t) = True"
  by (simp_all add: at_time_def storage_down_def)

lemma example_verifySig:
  "verifySig example_runtime (Fin 1700000000) core s =
     (md5_digest (''1700000000|'' @ core @ ''|s3cret'') = s)"
  by (simp add: verifySig_def md5_def example_runtime_def js_eval)

lemma example_fresh:
  "enforceFresh t (Fin 1700000000) = (\<bar>t - 1700000000\<bar> \<le> 300)"
proof -
  have "(\<bar>rat_of_int t - 1700000000\<bar> \<le> 300) =
        (\<bar>rat_of_int (t - 1700000000)\<bar> \<le> rat_of_int 300)"
    by simp
  also have "\<dots> = (\<bar>t - 1700000000\<bar> \<le> 300)"
    by (simp only: of_int_abs [symmetric] of_int_le_iff)
  finally show ?thesis by (simp add: enforceFresh_def)
qed

lemma example_ts:
  "req_ts R scenario_birth = Fin 1700000000"
  "req_ts R other_owner_birth = Fin 1700000000"
  "req_ts R gen_as_text_birth = Fin 1700000000"
  "req_ts R forged_owner_birth = Fin 1700000000"
  "req_ts R unnamed_birth = Fin 1700000000"
  "req_ts R empty_cert_birth = Fin 1700000000"
  "req_ts R scenario_transfer = Fin 1700000000"
  by (simp_all add: req_ts_def example_requests js_eval)

lemma example_sig:
  "req_sig R scenario_birth = ''ccd717fc92d5d3a9a614728a6bc3d4f2''"
  "req_sig R other_owner_birth = ''8653b015d17fbae04efaab608591baed''"
  "req_sig R gen_as_text_birth = ''ccd717fc92d5d3a9a614728a6bc3d4f2''"
  "req_sig R forged_owner_birth = ''ccd717fc92d5d3a9a614728a6bc3d4f2''"
  "req_sig R unnamed_birth = ''41e1d9be691157e5b5527a54c8c84d8d''"
  "req_sig R empty_cert_birth = ''41e1d9be691157e5b5527a54c8c84d8d''"
  "req_sig R scenario_transfer = ''c3a796430dc2628420c57bb4da7ab5d7''"
  by (simp_all add: req_sig_def example_requests js_eval)

lemma example_core:
  "birth_core R scenario_birth = ''C1|1000|P1|P2|3|2|H1|OwnerA''"
  "birth_core R other_owner_birth = ''C1|1000|P1|P2|3|2|H1|OwnerB''"
  "birth_core R gen_as_text_birth = ''C1|1000|P1|P2|3|2|H1|OwnerA''"
  "birth_core R forged_owner_birth = ''C1|1000|P1|P2|3|2|H1|OwnerB''"
  "birth_core R unnamed_birth = ''|1000|P1|P2|3|2|H1|OwnerA''"
  "birth_core R empty_cert_birth = ''|1000|P1|P2|3|2|H1|OwnerA''"
  "transfer_core R scenario_transfer = ''K1|OwnerA|OwnerB''"
  by (simp_all add: request_eval example_requests js_eval)

lemma example_admitted:
  assumes "\<bar>t - 1700000000\<bar> \<le> 300"
  shows "admitted example_runtime (at_time t)
           (birth_core example_runtime scenario_birth) scenario_birth"
    and "admitted example_runtime (at_time t)
           (birth_core example_runtime other_owner_birth) other_owner_birth"
    and "admitted example_runtime (at_time t)
           (birth_core example_runtime gen_as_text_birth) gen_as_text_birth"
    and "admitted example_runtime (at_time t)
           (birth_core example_runtime unnamed_birth) unnamed_birth"
    and "admitted example_runtime (at_time t)
           (birth_core example_runtime empty_cert_birth) empty_cert_birth"
    and "admitted example_runtime (at_time t)
           (transfer_core example_runtime scenario_transfer) scenario_transfer"
  using assms
  by (simp_all add: admitted_def example_ts example_sig example_core example_verifySig
      example_fresh conditions_sel md5_birth_C1 md5_birth_OwnerB md5_birth_unnamed md5_transfer_K1)

lemma example_verify_admitted:
  "admitted example_runtime W (verify_core example_runtime (verify_request c h s))
     (verify_request c h s) =
   (\<bar>now_1st W - 1700000000\<bar> \<le> 300 \<and> md5_digest (''1700000000|'' @ c @ ''|'' @ h @ ''|s3cret'') = s)"
  by (simp add: admitted_def example_fresh example_verifySig req_ts_def req_sig_def
      verify_core_def verify_fields_def verify_request_def js_eval)

lemma example_storable:
  "birth_storable R (at_time t) scenario_birth"
  "birth_storable R (at_time t) other_owner_birth"
  "birth_storable example_runtime (at_time t) gen_as_text_birth"
  "birth_storable R (at_time t) unnamed_birth"
  "birth_storable R (at_time t) empty_cert_birth"
  by (simp_all add: birth_storable_def at_time_def example_requests js_eval
      example_runtime_def decimal_number_def digit_value_def)

lemma example_cert:
  "stored_cert R scenario_birth = Some ''C1''"
  "stored_cert R other_owner_birth = Some ''C1''"
  "stored_cert R unnamed_birth = None"
  "stored_cert R empty_cert_birth = None"
  by (simp_all add: stored_cert_def example_requests js_eval)

lemma empty_store_unique: "cert_unique empty_store"
  by (simp add: cert_unique_def empty_store_def)

lemma example_rows:
  "new_birth_row R (at_time t) scenario_birth d =
     \<lparr>births_id = births_id_seq d, kit_sid = Some ''K1'', p1_sid = Some ''P1'',
      p2_sid = Some ''P2'', gen = Some 3, tier = Some 2, dna_hash = Some ''H1'',
      cert_id = Some ''C1'', cert_ts = Some 1000, owner_uuid = Some ''OwnerA'',
      created_at = Some t\<rparr>"
  "new_birth_row R (at_time t) unnamed_birth d =
     \<lparr>births_id = births_id_seq d, kit_sid = Some ''K1'', p1_sid = Some ''P1'',
      p2_sid = Some ''P2'', gen = Some 3, tier = Some 2, dna_hash = Some ''H1'',
      cert_id = None, cert_ts = Some 1000, owner_uuid = Some ''OwnerA'',
      created_at = Some t\<rparr>"
  "new_birth_row R (at_time t) empty_cert_birth d =
     \<lparr>births_id = births_id_seq d, kit_sid = Some ''K1'', p1_sid = Some ''P1'',
      p2_sid = Some ''P2'', gen = Some 3, tier = Some 2, dna_hash = Some ''H1'',
      cert_id = None, cert_ts = Some 1000, owner_uuid = Some ''OwnerA'',
      created_at = Some t\<rparr>"
  "new_transfer_row R scenario_transfer i =
     \<lparr>transfers_id = i, sid = Some ''K1'', from_owner = Some ''OwnerA'',
      to_owner = Some ''OwnerB'', transfers_ts = Some 1700000000\<rparr>"
  by (simp_all add: new_birth_row_def new_transfer_row_def at_time_def req_ts_def
      example_requests js_eval)


lemma ledger_value:
  "ledger =
     \<lparr>births =
        [\<lparr>births_id = 1, kit_sid = Some ''K1'', p1_sid = Some ''P1'', p2_sid = Some ''P2'',
          gen = Some 3, tier = Some 2, dna_hash = Some ''H1'', cert_id = Some ''C1'',
          cert_ts = Some 1000, owner_uuid = Some ''OwnerA'', created_at = Some 1700000010\<rparr>],
      births_id_seq = 2, transfers = [], transfers_id_seq = 1,
      audit =
        [\<lparr>audit_id = 1, event = Some ''birth'', payload = Some (JObj scenario_birth),
          audit_ts = Some 1700000010\<rparr>],
      audit_id_seq = 2, queries = 2\<rparr>"
  unfolding ledger_def
  by (simp add: birth_def Let_def example_ts example_sig example_core example_verifySig
      md5_birth_C1 example_fresh conditions_sel insert_births_def insert_audit_def)
     (simp add: empty_store_def scenario_birth_def js_eval insert_audit_def conditions_sel)

lemma scenario_transfer_accepted:
  "\<bar>t - 1700000000\<bar> \<le> 300 \<Longrightarrow>
   accepted (transfer example_runtime (at_time t) scenario_transfer d)"
  by (simp add: transfer_accepted_iff example_admitted example_ts conditions_sel js_eval)

section \<open>Rejection before any storage access\<close>





section \<open>The signature\<close>


text \<open>
  C5 claims that whenever the field tuples of two requests differ in exactly one field,
  a signature that verifies for one does not verify for the other. The code does not do
  that: \<^verbatim>\<open>join\<close> renders the number \<^verbatim>\<open>3\<close> and the text \<^verbatim>\<open>"3"\<close> alike (and \<^verbatim>\<open>null\<close>, an absent
  field and the empty text alike), so the scenario's request and the same request with
  \<^verbatim>\<open>gen\<close> sent as text differ in exactly one field, carry the same timestamp, and verify
  under the same signature.
\<close>

theorem signature_binding_counterexample:
  "differ_in_one (op_fields Birth scenario_birth) (op_fields Birth gen_as_text_birth)
   \<and> req_ts example_runtime gen_as_text_birth = req_ts example_runtime scenario_birth
   \<and> verifySig example_runtime (req_ts example_runtime scenario_birth)
        (op_core example_runtime Birth scenario_birth) (req_sig example_runtime scenario_birth)
   \<and> verifySig example_runtime (req_ts example_runtime scenario_birth)
        (op_core example_runtime Birth gen_as_text_birth) (req_sig example_runtime scenario_birth)"
proof -
  have "differ_in_one (op_fields Birth scenario_birth) (op_fields Birth gen_as_text_birth)"
    by (simp add: birth_fields_def gen_as_text_birth_def scenario_birth_def js_eval)
  then show ?thesis
    by (simp add: example_ts example_sig example_core example_verifySig md5_birth_C1)
qed

text \<open>
  C5, as amended. For every operation and every pair of requests whose field tuples, as
  \<^verbatim>\<open>join\<close> renders them, differ in exactly one position, with the same timestamp and
  secret: if the digest tells the two signed strings apart, a signature that verifies
  for one request does not verify for the other.
\<close>

theorem signature_binds_rendered_fields:
  assumes diff: "differ_in_one (map (join_elem R) (op_fields opn b1))
                   (map (join_elem R) (op_fields opn b2))"
      and nocoll: "no_collision R (signed_string R ts (op_core R opn b1))
                     (signed_string R ts (op_core R opn b2))"
      and ok1: "verifySig R ts (op_core R opn b1) sig"
  shows "\<not> verifySig R ts (op_core R opn b2) sig"
proof
  assume ok2: "verifySig R ts (op_core R opn b2) sig"
  from ok1 ok2 have "md5 R (signed_string R ts (op_core R opn b1)) =
      md5 R (signed_string R ts (op_core R opn b2))"
    by (simp add: verifySig_def signed_string_def)
  with nocoll have "signed_string R ts (op_core R opn b1) = signed_string R ts (op_core R opn b2)"
    by (simp add: no_collision_def)
  then have "op_core R opn b1 = op_core R opn b2"
    by (simp add: signed_string_def)
  moreover from diff have "op_core R opn b1 \<noteq> op_core R opn b2"
    unfolding op_core_join array_join_def by (rule differ_in_one_join)
  ultimately show False by simp
qed

text \<open>The scenario's signature does not verify for the request with another owner.\<close>

theorem signature_binds_rendered_fields_witness:
  "differ_in_one (map (join_elem example_runtime) (op_fields Birth scenario_birth))
     (map (join_elem example_runtime) (op_fields Birth forged_owner_birth))
   \<and> no_collision example_runtime
        (signed_string example_runtime (Fin 1700000000) (op_core example_runtime Birth scenario_birth))
        (signed_string example_runtime (Fin 1700000000)
           (op_core example_runtime Birth forged_owner_birth))
   \<and> verifySig example_runtime (Fin 1700000000) (op_core example_runtime Birth scenario_birth)
        ''ccd717fc92d5d3a9a614728a6bc3d4f2''
   \<and> \<not> verifySig example_runtime (Fin 1700000000)
        (op_core example_runtime Birth forged_owner_birth) ''ccd717fc92d5d3a9a614728a6bc3d4f2''"
proof -
  have diff: "differ_in_one (map (join_elem example_runtime) (op_fields Birth scenario_birth))
     (map (join_elem example_runtime) (op_fields Birth forged_owner_birth))"
    by (simp add: birth_fields_def forged_owner_birth_def scenario_birth_def js_eval)
  have nocoll: "no_collision example_runtime
        (signed_string example_runtime (Fin 1700000000) (op_core example_runtime Birth scenario_birth))
        (signed_string example_runtime (Fin 1700000000)
           (op_core example_runtime Birth forged_owner_birth))"
    by (simp add: no_collision_def signed_string_def md5_def example_runtime_def example_core
        js_eval md5_birth_C1 md5_birth_OwnerB)
  have ok: "verifySig example_runtime (Fin 1700000000)
        (op_core example_runtime Birth scenario_birth) ''ccd717fc92d5d3a9a614728a6bc3d4f2''"
    by (simp add: example_core example_verifySig md5_birth_C1)
  from signature_binds_rendered_fields [OF diff nocoll ok] diff nocoll ok show ?thesis by simp
qed

section \<open>Births\<close>

text \<open>
  C1 claims idempotence for every certificate identifier. The code stores
  \<^verbatim>\<open>b.cert_id || null\<close>, so an identifier that JavaScript reads as false, the empty text
  among them, is stored as \<^verbatim>\<open>NULL\<close>, on which the constraint never conflicts: the request
  with the empty identifier, accepted twice, leaves two rows.
\<close>

theorem birth_idempotent_counterexample:
  "fld empty_cert_birth ''cert_id'' = JStr []
   \<and> accepted (birth example_runtime (at_time 1700000020) empty_cert_birth ledger)
   \<and> accepted (birth example_runtime (at_time 1700000030) empty_cert_birth
         (snd (birth example_runtime (at_time 1700000020) empty_cert_birth ledger)))
   \<and> births (snd (birth example_runtime (at_time 1700000020) empty_cert_birth ledger)) =
       births ledger @
       [\<lparr>births_id = 2, kit_sid = Some ''K1'', p1_sid = Some ''P1'', p2_sid = Some ''P2'',
         gen = Some 3, tier = Some 2, dna_hash = Some ''H1'', cert_id = None,
         cert_ts = Some 1000, owner_uuid = Some ''OwnerA'', created_at = Some 1700000020\<rparr>]
   \<and> births (snd (birth example_runtime (at_time 1700000030) empty_cert_birth
         (snd (birth example_runtime (at_time 1700000020) empty_cert_birth ledger)))) =
       births ledger @
       [\<lparr>births_id = 2, kit_sid = Some ''K1'', p1_sid = Some ''P1'', p2_sid = Some ''P2'',
         gen = Some 3, tier = Some 2, dna_hash = Some ''H1'', cert_id = None,
         cert_ts = Some 1000, owner_uuid = Some ''OwnerA'', created_at = Some 1700000020\<rparr>,
        \<lparr>births_id = 3, kit_sid = Some ''K1'', p1_sid = Some ''P1'', p2_sid = Some ''P2'',
         gen = Some 3, tier = Some 2, dna_hash = Some ''H1'', cert_id = None,
         cert_ts = Some 1000, owner_uuid = Some ''OwnerA'', created_at = Some 1700000030\<rparr>]"
proof -
  let ?d1 = "snd (birth example_runtime (at_time 1700000020) empty_cert_birth ledger)"
  have a1: "accepted (birth example_runtime (at_time 1700000020) empty_cert_birth ledger)"
    by (simp add: birth_accepted_iff example_admitted example_storable)
  have a2: "accepted (birth example_runtime (at_time 1700000030) empty_cert_birth ?d1)"
    by (simp add: birth_accepted_iff example_admitted example_storable)
  have seq0: "births_id_seq ledger = 2"
    by (simp add: ledger_value)
  have seq1: "births_id_seq ?d1 = 3"
    using birth_accepted_seq [OF a1] seq0 by simp
  have "fld empty_cert_birth ''cert_id'' = JStr []"
    by (simp add: empty_cert_birth_def js_eval)
  with birth_accepted_births [OF a1] birth_accepted_births [OF a2] a1 a2 seq0 seq1
  show ?thesis by (simp add: example_cert example_rows)
qed

text \<open>
  C1, as amended. The birth operation is idempotent on every certificate identifier
  that is present, that is, on every identifier \<open>c\<close> a request stores (\<^verbatim>\<open>b.cert_id || null\<close>
  is not \<^verbatim>\<open>null\<close>): when two admitted birth submissions whose statements the storage
  layer carries out store the same identifier \<open>c\<close>, both are answered with success, the
  second one leaves the \<^verbatim>\<open>births\<close> table exactly as the first one left it (no second
  row, no change to the existing row), and the table holds exactly one row for \<open>c\<close>.
  The table the first submission meets satisfies its \<^verbatim>\<open>UNIQUE\<close> constraint.
\<close>

theorem birth_idempotent:
  assumes adm1: "admitted R W1 (birth_core R b1) b1" and st1: "birth_storable R W1 b1"
      and adm2: "admitted R W2 (birth_core R b2) b2" and st2: "birth_storable R W2 b2"
      and c1: "stored_cert R b1 = Some c" and c2: "stored_cert R b2 = Some c"
      and uniq: "cert_unique d"
  shows "accepted (birth R W1 b1 d)
       \<and> accepted (birth R W2 b2 (snd (birth R W1 b1 d)))
       \<and> births (snd (birth R W2 b2 (snd (birth R W1 b1 d)))) = births (snd (birth R W1 b1 d))
       \<and> length (rows_of_cert c (snd (birth R W2 b2 (snd (birth R W1 b1 d))))) = 1"
proof -
  let ?d1 = "snd (birth R W1 b1 d)"
  let ?d2 = "snd (birth R W2 b2 ?d1)"
  have a1: "accepted (birth R W1 b1 d)"
    using adm1 st1 by (simp add: birth_accepted_iff)
  have a2: "accepted (birth R W2 b2 ?d1)"
    using adm2 st2 by (simp add: birth_accepted_iff)
  have present: "Some c \<in> set (map cert_id (births ?d1))"
    using birth_accepted_births [OF a1] c1 by (auto simp: new_birth_row_def stored_cert_def)
  have same: "births ?d2 = births ?d1"
    using birth_accepted_births [OF a2] c2 present by simp
  have "rows_of_cert c ?d1 \<noteq> []"
    using present cert_present_iff [of c ?d1] by blast
  moreover have "length (rows_of_cert c ?d1) \<le> 1"
    using birth_keeps_cert_unique [OF uniq] by (rule cert_unique_rows)
  ultimately have "length (rows_of_cert c ?d1) = 1"
    by (cases "rows_of_cert c ?d1") auto
  moreover have "rows_of_cert c ?d2 = rows_of_cert c ?d1"
    using same by (simp add: rows_of_cert_def)
  ultimately show ?thesis using a1 a2 same by simp
qed

text \<open>
  The scenario's certificate, then the same certificate submitted for another owner:
  both succeed, and the table keeps the one row of the first submission.
\<close>

theorem birth_idempotent_witness:
  "admitted example_runtime (at_time 1700000010)
     (birth_core example_runtime scenario_birth) scenario_birth
   \<and> birth_storable example_runtime (at_time 1700000010) scenario_birth
   \<and> admitted example_runtime (at_time 1700000200)
       (birth_core example_runtime other_owner_birth) other_owner_birth
   \<and> birth_storable example_runtime (at_time 1700000200) other_owner_birth
   \<and> stored_cert example_runtime scenario_birth = Some ''C1''
   \<and> stored_cert example_runtime other_owner_birth = Some ''C1''
   \<and> cert_unique empty_store
   \<and> accepted (birth example_runtime (at_time 1700000010) scenario_birth empty_store)
   \<and> accepted (birth example_runtime (at_time 1700000200) other_owner_birth ledger)
   \<and> births (snd (birth example_runtime (at_time 1700000200) other_owner_birth ledger)) =
       [\<lparr>births_id = 1, kit_sid = Some ''K1'', p1_sid = Some ''P1'', p2_sid = Some ''P2'',
         gen = Some 3, tier = Some 2, dna_hash = Some ''H1'', cert_id = Some ''C1'',
         cert_ts = Some 1000, owner_uuid = Some ''OwnerA'', created_at = Some 1700000010\<rparr>]
   \<and> length (rows_of_cert ''C1''
        (snd (birth example_runtime (at_time 1700000200) other_owner_birth ledger))) = 1"
proof -
  have a1: "admitted example_runtime (at_time 1700000010)
      (birth_core example_runtime scenario_birth) scenario_birth"
    by (rule example_admitted) simp
  have a2: "admitted example_runtime (at_time 1700000200)
      (birth_core example_runtime other_owner_birth) other_owner_birth"
    by (rule example_admitted) simp
  note s1 = example_storable(1) [of example_runtime 1700000010]
  note s2 = example_storable(2) [of example_runtime 1700000200]
  note c1 = example_cert(1) [of example_runtime]
  note c2 = example_cert(2) [of example_runtime]
  from birth_idempotent [OF a1 s1 a2 s2 c1 c2 empty_store_unique]
  have "accepted (birth example_runtime (at_time 1700000010) scenario_birth empty_store)
      \<and> accepted (birth example_runtime (at_time 1700000200) other_owner_birth ledger)
      \<and> births (snd (birth example_runtime (at_time 1700000200) other_owner_birth ledger))
          = births ledger
      \<and> length (rows_of_cert ''C1''
          (snd (birth example_runtime (at_time 1700000200) other_owner_birth ledger))) = 1"
    by (simp only: ledger_def)
  with a1 a2 s1 s2 c1 c2 empty_store_unique show ?thesis
    by (simp add: ledger_value)
qed

text \<open>
  C10. The at-most-one-row invariant covers present identifiers only: a birth request
  whose \<^verbatim>\<open>cert_id\<close> field is absent or falsy stores a \<^verbatim>\<open>NULL\<close> certificate identifier, and
  every such accepted request appends a fresh row, because the uniqueness constraint
  does not conflict on \<^verbatim>\<open>NULL\<close>.
\<close>

theorem null_cert_always_inserts:
  assumes "\<not> truthy (fld b ''cert_id'')" and "accepted (birth R W b d)"
  shows "stored_cert R b = None
       \<and> cert_id (new_birth_row R W b d) = None
       \<and> births (snd (birth R W b d)) = births d @ [new_birth_row R W b d]"
proof -
  from assms(1) have none: "stored_cert R b = None"
    by (simp add: stored_cert_def js_or_def)
  then have "cert_id (new_birth_row R W b d) = None"
    by (simp add: new_birth_row_def stored_cert_def)
  with none birth_accepted_births [OF assms(2)] show ?thesis by simp
qed

text \<open>The request without a \<^verbatim>\<open>cert_id\<close>, submitted twice: two more rows.\<close>

theorem null_cert_always_inserts_witness:
  "\<not> truthy (fld unnamed_birth ''cert_id'')
   \<and> accepted (birth example_runtime (at_time 1700000020) unnamed_birth ledger)
   \<and> accepted (birth example_runtime (at_time 1700000030) unnamed_birth
         (snd (birth example_runtime (at_time 1700000020) unnamed_birth ledger)))
   \<and> births (snd (birth example_runtime (at_time 1700000030) unnamed_birth
         (snd (birth example_runtime (at_time 1700000020) unnamed_birth ledger)))) =
       births ledger @
       [\<lparr>births_id = 2, kit_sid = Some ''K1'', p1_sid = Some ''P1'', p2_sid = Some ''P2'',
         gen = Some 3, tier = Some 2, dna_hash = Some ''H1'', cert_id = None,
         cert_ts = Some 1000, owner_uuid = Some ''OwnerA'', created_at = Some 1700000020\<rparr>,
        \<lparr>births_id = 3, kit_sid = Some ''K1'', p1_sid = Some ''P1'', p2_sid = Some ''P2'',
         gen = Some 3, tier = Some 2, dna_hash = Some ''H1'', cert_id = None,
         cert_ts = Some 1000, owner_uuid = Some ''OwnerA'', created_at = Some 1700000030\<rparr>]"
proof -
  let ?d1 = "snd (birth example_runtime (at_time 1700000020) unnamed_birth ledger)"
  have absent: "\<not> truthy (fld unnamed_birth ''cert_id'')"
    by (simp add: unnamed_birth_def scenario_birth_def js_eval)
  have a1: "accepted (birth example_runtime (at_time 1700000020) unnamed_birth ledger)"
    by (simp add: birth_accepted_iff example_admitted example_storable)
  have a2: "accepted (birth example_runtime (at_time 1700000030) unnamed_birth ?d1)"
    by (simp add: birth_accepted_iff example_admitted example_storable)
  have seq0: "births_id_seq ledger = 2"
    by (simp add: ledger_value)
  have seq1: "births_id_seq ?d1 = 3"
    using birth_accepted_seq [OF a1] seq0 by simp
  from null_cert_always_inserts [OF absent a1] null_cert_always_inserts [OF absent a2]
    absent a1 a2 seq0 seq1
  show ?thesis by (simp add: example_rows)
qed

section \<open>Transfers and the audit trail\<close>

text \<open>
  C7. The transfer operation performs no deduplication: for every transfer payload, two
  identical accepted submissions append two Transfer Records, alike but for the \<^verbatim>\<open>id\<close>
  each draws. Nothing is looked up and nothing is compared; the rows before them stay.
\<close>

theorem transfer_no_dedup:
  assumes first: "accepted (transfer R W1 b d)"
      and second: "accepted (transfer R W2 b (snd (transfer R W1 b d)))"
  shows "transfers (snd (transfer R W2 b (snd (transfer R W1 b d)))) =
           transfers d @ [new_transfer_row R b (transfers_id_seq d),
                          new_transfer_row R b (transfers_id_seq d + 1)]"
  by (simp add: transfer_accepted_store [OF second] transfer_accepted_store [OF first])

theorem transfer_no_dedup_witness:
  "accepted (transfer example_runtime (at_time 1700000010) scenario_transfer ledger)
   \<and> accepted (transfer example_runtime (at_time 1700000020) scenario_transfer
         (snd (transfer example_runtime (at_time 1700000010) scenario_transfer ledger)))
   \<and> transfers (snd (transfer example_runtime (at_time 1700000020) scenario_transfer
         (snd (transfer example_runtime (at_time 1700000010) scenario_transfer ledger)))) =
       [\<lparr>transfers_id = 1, sid = Some ''K1'', from_owner = Some ''OwnerA'',
         to_owner = Some ''OwnerB'', transfers_ts = Some 1700000000\<rparr>,
        \<lparr>transfers_id = 2, sid = Some ''K1'', from_owner = Some ''OwnerA'',
         to_owner = Some ''OwnerB'', transfers_ts = Some 1700000000\<rparr>]"
proof -
  have first: "accepted (transfer example_runtime (at_time 1700000010) scenario_transfer ledger)"
    by (rule scenario_transfer_accepted) simp
  have second: "accepted (transfer example_runtime (at_time 1700000020) scenario_transfer
      (snd (transfer example_runtime (at_time 1700000010) scenario_transfer ledger)))"
    by (rule scenario_transfer_accepted) simp
  have "transfers ledger = []" and "transfers_id_seq ledger = 1"
    by (simp_all add: ledger_value)
  with transfer_no_dedup [OF first second] first second show ?thesis
    by (simp add: example_rows)
qed



section \<open>Verification\<close>

text \<open>
  C6 claims that every admitted verify request ends in one of three outcomes. The code
  has a fourth: when the lookup fails in the storage layer, the handler catches the
  failure and answers \<^verbatim>\<open>db error\<close> with status 400, here for a validly signed, fresh
  query of the scenario's certificate.
\<close>

theorem verify_outcome_counterexample:
  "admitted example_runtime (storage_down 1700000060)
     (verify_core example_runtime (verify_request ''C1'' ''H1'' ''dc9053d404f723981ea657d22b736e8a''))
     (verify_request ''C1'' ''H1'' ''dc9053d404f723981ea657d22b736e8a'')
   \<and> fst (verify example_runtime (storage_down 1700000060)
        (verify_request ''C1'' ''H1'' ''dc9053d404f723981ea657d22b736e8a'') ledger)
       = (400, Ok_false ''db error'')"
proof -
  have adm: "admitted example_runtime (storage_down 1700000060)
     (verify_core example_runtime (verify_request ''C1'' ''H1'' ''dc9053d404f723981ea657d22b736e8a''))
     (verify_request ''C1'' ''H1'' ''dc9053d404f723981ea657d22b736e8a'')"
    by (simp add: example_verify_admitted conditions_sel md5_verify_C1_H1)
  then show ?thesis
    by (simp add: verify_def Let_def admitted_def select_births_def conditions_sel bad_def)
qed

text \<open>
  C6, as amended. For every admitted verify request whose lookup the storage layer
  carries out, the answer is exactly the outcome the specification words: \<^verbatim>\<open>not found\<close>
  when no stored record has the queried certificate identifier, \<^verbatim>\<open>dna mismatch\<close> when a
  record exists and the asserted and the stored content hash are both non-empty and
  differ, and otherwise success with the full stored record. The request changes no
  table.
\<close>

theorem verify_outcome:
  assumes adm: "admitted R W (verify_core R b) b" and up: "\<not> fault_1st W"
  shows "fst (verify R W b d) =
           res_json (verification_result (fld b ''dna_hash'')
             (case prepareValue R (fld b ''cert_id'') of
                None \<Rightarrow> None
              | Some c \<Rightarrow> find (\<lambda>r. cert_id r = Some c) (births d)))
       \<and> births (snd (verify R W b d)) = births d
       \<and> transfers (snd (verify R W b d)) = transfers d
       \<and> audit (snd (verify R W b d)) = audit d"
proof -
  let ?found = "case prepareValue R (fld b ''cert_id'') of
                  None \<Rightarrow> None
                | Some c \<Rightarrow> find (\<lambda>r. cert_id r = Some c) (births d)"
  have sel: "select_births (fault_1st W) (prepareValue R (fld b ''cert_id'')) d =
               (Resolved (case ?found of None \<Rightarrow> [] | Some x \<Rightarrow> [x]),
                d\<lparr>queries := Suc (queries d)\<rparr>)"
    using up by (simp add: select_births_def take1_filter_find split: option.splits)
  show ?thesis
  proof (cases ?found)
    case None
    with adm sel show ?thesis
      by (simp add: verify_def Let_def admitted_def verification_result_def)
  next
    case (Some row)
    with adm sel show ?thesis
      by (simp add: verify_def Let_def admitted_def verification_result_def non_empty_def
          text_value_def strict_neq_text split: option.splits)
  qed
qed

text \<open>
  The three outcomes on the store after the scenario's birth: the matching hash, another
  hash, and an identifier that was never registered.
\<close>

theorem verify_outcome_witness:
  "admitted example_runtime (at_time 1700000060)
     (verify_core example_runtime (verify_request ''C1'' ''H1'' ''dc9053d404f723981ea657d22b736e8a''))
     (verify_request ''C1'' ''H1'' ''dc9053d404f723981ea657d22b736e8a'')
   \<and> \<not> fault_1st (at_time 1700000060)
   \<and> fst (verify example_runtime (at_time 1700000060)
        (verify_request ''C1'' ''H1'' ''dc9053d404f723981ea657d22b736e8a'') ledger) =
       (200, Ok_record
          \<lparr>births_id = 1, kit_sid = Some ''K1'', p1_sid = Some ''P1'', p2_sid = Some ''P2'',
           gen = Some 3, tier = Some 2, dna_hash = Some ''H1'', cert_id = Some ''C1'',
           cert_ts = Some 1000, owner_uuid = Some ''OwnerA'', created_at = Some 1700000010\<rparr>)
   \<and> fst (verify example_runtime (at_time 1700000060)
        (verify_request ''C1'' ''xyz'' ''a6f8b9c88ae63deba45cc964ff63e45c'') ledger) =
       (200, Ok_false ''dna mismatch'')
   \<and> fst (verify example_runtime (at_time 1700000060)
        (verify_request ''C9'' ''H1'' ''800302322ada27249c0a2b027eb57305'') ledger) =
       (200, Ok_false ''not found'')
   \<and> births (snd (verify example_runtime (at_time 1700000060)
        (verify_request ''C1'' ''H1'' ''dc9053d404f723981ea657d22b736e8a'') ledger))
       = births ledger"
proof -
  have up: "\<not> fault_1st (at_time 1700000060)"
    by (simp add: conditions_sel)
  have a1: "admitted example_runtime (at_time 1700000060)
     (verify_core example_runtime (verify_request ''C1'' ''H1'' ''dc9053d404f723981ea657d22b736e8a''))
     (verify_request ''C1'' ''H1'' ''dc9053d404f723981ea657d22b736e8a'')"
    by (simp add: example_verify_admitted conditions_sel md5_verify_C1_H1)
  have a2: "admitted example_runtime (at_time 1700000060)
     (verify_core example_runtime (verify_request ''C1'' ''xyz'' ''a6f8b9c88ae63deba45cc964ff63e45c''))
     (verify_request ''C1'' ''xyz'' ''a6f8b9c88ae63deba45cc964ff63e45c'')"
    by (simp add: example_verify_admitted conditions_sel md5_verify_C1_xyz)
  have a3: "admitted example_runtime (at_time 1700000060)
     (verify_core example_runtime (verify_request ''C9'' ''H1'' ''800302322ada27249c0a2b027eb57305''))
     (verify_request ''C9'' ''H1'' ''800302322ada27249c0a2b027eb57305'')"
    by (simp add: example_verify_admitted conditions_sel md5_verify_C9_H1)
  note found = verify_outcome [OF a1 up, of ledger]
  note mismatch = verify_outcome [OF a2 up, of ledger]
  note missing = verify_outcome [OF a3 up, of ledger]
  from found mismatch missing up a1 show ?thesis
    by (simp add: verify_request_def fld_def ledger_value verification_result_def non_empty_def
        res_json_def)
qed

end
